theory Spec2Isabelle
  imports Complex_Main "HOL-Library.AList" "HOL-Library.Sublist"
begin

section \<open>Python values and the operations the script applies to them\<close>

text \<open>
  The payloads returned by the Garmin client and by the Notion client are decoded JSON:
  \<open>None\<close>, booleans, integers, floats, strings, lists and dictionaries with string keys.
  A finite float is represented by the rational number it denotes exactly; the two
  infinities and NaN are kept apart because \<open>int()\<close> raises on them.
  A dictionary is an association list with distinct keys, in insertion order.
\<close>

datatype pyfloat = Finite rat | Infinite bool | NaN

datatype pyval =
    PNone
  | PBool bool
  | PInt int
  | PFloat pyfloat
  | PStr string
  | PList "pyval list"
  | PDict "(string \<times> pyval) list"

text \<open>The exceptions the script can meet; all are subclasses of \<open>Exception\<close>.\<close>

datatype exn =
    TypeError
  | AttributeError
  | KeyError
  | IndexError
  | ValueError
  | OverflowError
  | ServiceError string

text \<open>Sequencing of statements that may raise: the first exception wins.\<close>

definition raising :: "exn + 'a \<Rightarrow> ('a \<Rightarrow> exn + 'b) \<Rightarrow> exn + 'b" where
  "raising m f = (case m of Inl e \<Rightarrow> Inl e | Inr x \<Rightarrow> f x)"

text \<open>Truth value of an object, as tested by \<open>if x\<close>, \<open>x and y\<close> and \<open>any\<close>.\<close>

fun truthy :: "pyval \<Rightarrow> bool" where
  "truthy PNone = False"
| "truthy (PBool b) = b"
| "truthy (PInt i) = (i \<noteq> 0)"
| "truthy (PFloat (Finite q)) = (q \<noteq> 0)"
| "truthy (PFloat (Infinite s)) = True"
| "truthy (PFloat NaN) = True"
| "truthy (PStr s) = (s \<noteq> [])"
| "truthy (PList xs) = (xs \<noteq> [])"
| "truthy (PDict kvs) = (kvs \<noteq> [])"

text \<open>\<open>needle in haystack\<close> on two strings: contiguous occurrence.\<close>

fun substring :: "string \<Rightarrow> string \<Rightarrow> bool" where
  "substring xs [] = (xs = [])"
| "substring xs (y # ys) = (prefix xs (y # ys) \<or> substring xs ys)"

text \<open>
  \<open>'k' in x\<close>: key membership in a dictionary, element membership in a list, substring
  test on a string, \<open>TypeError\<close> on everything that is not a container.
\<close>

fun py_in :: "string \<Rightarrow> pyval \<Rightarrow> exn + bool" where
  "py_in k (PDict kvs) = Inr (map_of kvs k \<noteq> None)"
| "py_in k (PList xs) = Inr (PStr k \<in> set xs)"
| "py_in k (PStr s) = Inr (substring k s)"
| "py_in k PNone = Inl TypeError"
| "py_in k (PBool b) = Inl TypeError"
| "py_in k (PInt i) = Inl TypeError"
| "py_in k (PFloat f) = Inl TypeError"

text \<open>\<open>x['k']\<close> with a string subscript.\<close>

fun py_getitem :: "pyval \<Rightarrow> string \<Rightarrow> exn + pyval" where
  "py_getitem (PDict kvs) k = (case map_of kvs k of None \<Rightarrow> Inl KeyError | Some v \<Rightarrow> Inr v)"
| "py_getitem (PList xs) k = Inl TypeError"
| "py_getitem (PStr s) k = Inl TypeError"
| "py_getitem PNone k = Inl TypeError"
| "py_getitem (PBool b) k = Inl TypeError"
| "py_getitem (PInt i) k = Inl TypeError"
| "py_getitem (PFloat f) k = Inl TypeError"

text \<open>
  \<open>x[0]\<close>: the first element of a list, the first character of a string; a dictionary
  decoded from JSON has no key \<open>0\<close>.
\<close>

fun py_getitem0 :: "pyval \<Rightarrow> exn + pyval" where
  "py_getitem0 (PList []) = Inl IndexError"
| "py_getitem0 (PList (x # xs)) = Inr x"
| "py_getitem0 (PStr []) = Inl IndexError"
| "py_getitem0 (PStr (c # cs)) = Inr (PStr [c])"
| "py_getitem0 (PDict kvs) = Inl KeyError"
| "py_getitem0 PNone = Inl TypeError"
| "py_getitem0 (PBool b) = Inl TypeError"
| "py_getitem0 (PInt i) = Inl TypeError"
| "py_getitem0 (PFloat f) = Inl TypeError"

text \<open>\<open>x.get('k', default)\<close>: only dictionaries have the method.\<close>

fun py_get :: "pyval \<Rightarrow> string \<Rightarrow> pyval \<Rightarrow> exn + pyval" where
  "py_get (PDict kvs) k d = Inr (case map_of kvs k of None \<Rightarrow> d | Some v \<Rightarrow> v)"
| "py_get (PList xs) k d = Inl AttributeError"
| "py_get (PStr s) k d = Inl AttributeError"
| "py_get PNone k d = Inl AttributeError"
| "py_get (PBool b) k d = Inl AttributeError"
| "py_get (PInt i) k d = Inl AttributeError"
| "py_get (PFloat f) k d = Inl AttributeError"

text \<open>\<open>len(x)\<close>.\<close>

fun py_len :: "pyval \<Rightarrow> exn + nat" where
  "py_len (PList xs) = Inr (length xs)"
| "py_len (PStr s) = Inr (length s)"
| "py_len (PDict kvs) = Inr (length kvs)"
| "py_len PNone = Inl TypeError"
| "py_len (PBool b) = Inl TypeError"
| "py_len (PInt i) = Inl TypeError"
| "py_len (PFloat f) = Inl TypeError"

text \<open>Truncation of a rational towards zero, which is what \<open>int()\<close> does to a float.\<close>

definition trunc :: "rat \<Rightarrow> int" where
  "trunc q = (if 0 \<le> q then \<lfloor>q\<rfloor> else \<lceil>q\<rceil>)"

text \<open>
  The parts of the Python runtime that are not modelled in detail: how \<open>int()\<close> reads
  a string, and how \<open>strftime('%Y-%m-%d')\<close> prints the calendar day with a given
  ordinal.
\<close>

record runtime =
  int_of_str :: "string \<Rightarrow> exn + int"
  strftime :: "int \<Rightarrow> string"

text \<open>\<open>int(x)\<close>.\<close>

fun py_int :: "runtime \<Rightarrow> pyval \<Rightarrow> exn + int" where
  "py_int rt (PInt i) = Inr i"
| "py_int rt (PBool b) = Inr (if b then 1 else 0)"
| "py_int rt (PFloat (Finite q)) = Inr (trunc q)"
| "py_int rt (PFloat (Infinite s)) = Inl OverflowError"
| "py_int rt (PFloat NaN) = Inl ValueError"
| "py_int rt (PStr s) = int_of_str rt s"
| "py_int rt PNone = Inl TypeError"
| "py_int rt (PList xs) = Inl TypeError"
| "py_int rt (PDict kvs) = Inl TypeError"

text \<open>
  The test \<open>'k' in d and d['k'] is not None\<close> that guards every leaf of the HRV and
  VO2 payloads, together with the value \<open>d['k']\<close> that the guarded statement reads.
\<close>

definition present_value :: "pyval \<Rightarrow> string \<Rightarrow> exn + pyval option" where
  "present_value d k =
     raising (py_in k d) (\<lambda>b.
       if b then raising (py_getitem d k) (\<lambda>v. Inr (if v \<noteq> PNone then Some v else None))
       else Inr None)"

section \<open>The property set sent to Notion\<close>

text \<open>
  The value of one Notion property as the script builds it:
  \<open>{"date": {"start": s}}\<close>, \<open>{"number": v}\<close>, and
  \<open>{"rich_text": [{"text": {"content": str(v)}}]}\<close>, where the argument of \<open>str\<close>
  is kept as it is (\<open>str\<close> raises on no decoded JSON value).
\<close>

datatype property =
    DateProp string
  | NumberProp pyval
  | RichTextStr pyval

type_synonym props = "(string \<times> property) list"

text \<open>
  \<open>properties[k] = v\<close> is \<open>AList.update k v\<close>: the value is replaced where the key
  exists and appended otherwise. Log lines are left out, except where the logged
  expression itself can raise.
\<close>

subsection \<open>The mapping written in \<open>create_notion_entry\<close> (lines 74 to 127)\<close>

definition create_add_hrv :: "props \<Rightarrow> pyval \<Rightarrow> exn + props" where
  "create_add_hrv properties hrv_data =
     raising (if truthy hrv_data then py_in ''hrvSummary'' hrv_data else Inr False) (\<lambda>c.
       if c then
         raising (py_getitem hrv_data ''hrvSummary'') (\<lambda>hrv_summary.
         raising (present_value hrv_summary ''lastNightAvg'') (\<lambda>a.
         let p1 = (case a of Some v \<Rightarrow> AList.update ''Last Night HRV'' (NumberProp v) properties
                   | None \<Rightarrow> properties) in
         raising (present_value hrv_summary ''weeklyAvg'') (\<lambda>w.
         let p2 = (case w of Some v \<Rightarrow> AList.update ''Weekly Avg HRV'' (NumberProp v) p1
                   | None \<Rightarrow> p1) in
         raising (present_value hrv_summary ''status'') (\<lambda>s.
         Inr (case s of Some v \<Rightarrow> AList.update ''HRV Status'' (RichTextStr v) p2
              | None \<Rightarrow> p2)))))
       else Inr properties)"

definition create_add_rhr :: "runtime \<Rightarrow> props \<Rightarrow> pyval \<Rightarrow> exn + props" where
  "create_add_rhr rt properties rhr_data =
     raising (if truthy rhr_data then py_in ''allMetrics'' rhr_data else Inr False) (\<lambda>c.
       if c then
         \<comment> \<open>the log line of line 107 evaluates \<open>rhr_data.get('allMetrics', {})\<close>\<close>
         raising (py_get rhr_data ''allMetrics'' (PDict [])) (\<lambda>logged.
         raising (py_get rhr_data ''allMetrics'' (PDict [])) (\<lambda>all_metrics.
         raising (py_get all_metrics ''metricsMap'' (PDict [])) (\<lambda>metrics_map.
         raising (py_get metrics_map ''WELLNESS_RESTING_HEART_RATE'' (PList [])) (\<lambda>rhr_list.
         raising (if truthy rhr_list
                  then raising (py_len rhr_list) (\<lambda>n.
                         if 0 < n
                         then raising (py_getitem0 rhr_list) (\<lambda>first. py_in ''value'' first)
                         else Inr False)
                  else Inr False) (\<lambda>has_value.
           if has_value then
             raising (py_getitem0 rhr_list) (\<lambda>first.
             raising (py_getitem first ''value'') (\<lambda>rhr_value.
             raising (py_int rt rhr_value) (\<lambda>i.
             Inr (AList.update ''Resting Heart Rate'' (NumberProp (PInt i)) properties))))
           else Inr properties)))))
       else Inr properties)"

definition create_add_vo2 :: "props \<Rightarrow> pyval \<Rightarrow> exn + props" where
  "create_add_vo2 properties vo2_data =
     (if truthy vo2_data then
        raising (present_value vo2_data ''vo2MaxValue'') (\<lambda>m.
        let p1 = (case m of Some v \<Rightarrow> AList.update ''VO2 Max'' (NumberProp v) properties
                  | None \<Rightarrow> properties) in
        raising (present_value vo2_data ''fitnessAge'') (\<lambda>a.
        Inr (case a of Some v \<Rightarrow> AList.update ''Fitness Age'' (NumberProp v) p1
             | None \<Rightarrow> p1)))
      else Inr properties)"

definition create_properties ::
  "runtime \<Rightarrow> string \<Rightarrow> pyval \<Rightarrow> pyval \<Rightarrow> pyval \<Rightarrow> exn + props" where
  "create_properties rt date_str hrv_data rhr_data vo2_data =
     raising (create_add_hrv [(''Date'', DateProp date_str)] hrv_data) (\<lambda>p1.
     raising (create_add_rhr rt p1 rhr_data) (\<lambda>p2.
     create_add_vo2 p2 vo2_data))"

subsection \<open>The mapping written in \<open>update_notion_entry\<close> (lines 150 to 194)\<close>

definition update_add_hrv :: "props \<Rightarrow> pyval \<Rightarrow> exn + props" where
  "update_add_hrv properties hrv_data =
     raising (if truthy hrv_data then py_in ''hrvSummary'' hrv_data else Inr False) (\<lambda>c.
       if c then
         raising (py_getitem hrv_data ''hrvSummary'') (\<lambda>hrv_summary.
         raising (present_value hrv_summary ''lastNightAvg'') (\<lambda>a.
         let p1 = (case a of Some v \<Rightarrow> AList.update ''Last Night HRV'' (NumberProp v) properties
                   | None \<Rightarrow> properties) in
         raising (present_value hrv_summary ''weeklyAvg'') (\<lambda>w.
         let p2 = (case w of Some v \<Rightarrow> AList.update ''Weekly Avg HRV'' (NumberProp v) p1
                   | None \<Rightarrow> p1) in
         raising (present_value hrv_summary ''status'') (\<lambda>s.
         Inr (case s of Some v \<Rightarrow> AList.update ''HRV Status'' (RichTextStr v) p2
              | None \<Rightarrow> p2)))))
       else Inr properties)"

definition update_add_rhr :: "runtime \<Rightarrow> props \<Rightarrow> pyval \<Rightarrow> exn + props" where
  "update_add_rhr rt properties rhr_data =
     raising (if truthy rhr_data then py_in ''allMetrics'' rhr_data else Inr False) (\<lambda>c.
       if c then
         raising (py_get rhr_data ''allMetrics'' (PDict [])) (\<lambda>all_metrics.
         raising (py_get all_metrics ''metricsMap'' (PDict [])) (\<lambda>metrics_map.
         raising (py_get metrics_map ''WELLNESS_RESTING_HEART_RATE'' (PList [])) (\<lambda>rhr_list.
         raising (if truthy rhr_list
                  then raising (py_len rhr_list) (\<lambda>n.
                         if 0 < n
                         then raising (py_getitem0 rhr_list) (\<lambda>first. py_in ''value'' first)
                         else Inr False)
                  else Inr False) (\<lambda>has_value.
           if has_value then
             raising (py_getitem0 rhr_list) (\<lambda>first.
             raising (py_getitem first ''value'') (\<lambda>rhr_value.
             raising (py_int rt rhr_value) (\<lambda>i.
             Inr (AList.update ''Resting Heart Rate'' (NumberProp (PInt i)) properties))))
           else Inr properties))))
       else Inr properties)"

definition update_add_vo2 :: "props \<Rightarrow> pyval \<Rightarrow> exn + props" where
  "update_add_vo2 properties vo2_data =
     (if truthy vo2_data then
        raising (present_value vo2_data ''vo2MaxValue'') (\<lambda>m.
        let p1 = (case m of Some v \<Rightarrow> AList.update ''VO2 Max'' (NumberProp v) properties
                  | None \<Rightarrow> properties) in
        raising (present_value vo2_data ''fitnessAge'') (\<lambda>a.
        Inr (case a of Some v \<Rightarrow> AList.update ''Fitness Age'' (NumberProp v) p1
             | None \<Rightarrow> p1)))
      else Inr properties)"

definition update_properties :: "runtime \<Rightarrow> pyval \<Rightarrow> pyval \<Rightarrow> pyval \<Rightarrow> exn + props" where
  "update_properties rt hrv_data rhr_data vo2_data =
     raising (update_add_hrv [] hrv_data) (\<lambda>p1.
     raising (update_add_rhr rt p1 rhr_data) (\<lambda>p2.
     update_add_vo2 p2 vo2_data))"

section \<open>The two services and the calls made to them\<close>

text \<open>
  The Garmin client: the outcome of \<open>Garmin(...).login()\<close> and the three read operations,
  each of which returns a payload or raises for a given date string.
\<close>

record garmin_client =
  login :: "exn option"
  get_hrv_data :: "string \<Rightarrow> exn + pyval"
  get_rhr_day :: "string \<Rightarrow> exn + pyval"
  get_max_metrics :: "string \<Rightarrow> exn + pyval"

text \<open>
  Every call issued to the Notion client is recorded, in order, with its arguments:
  \<open>databases.query\<close> with the database id and the date of the filter, \<open>pages.create\<close>
  with the parent database id and the properties, \<open>pages.update\<close> with the page id and
  the properties. The database id is the value of \<open>os.getenv\<close>, \<open>None\<close> when unset.
\<close>

datatype db_call =
    Query "string option" string
  | Create "string option" props
  | Update pyval props

text \<open>
  The Notion service answers a call as a function of the calls it has received so far:
  a query returns a payload or raises, a write returns (the script ignores what) or raises.
\<close>

record notion_client =
  databases_query :: "db_call list \<Rightarrow> string option \<Rightarrow> string \<Rightarrow> exn + pyval"
  pages_create :: "db_call list \<Rightarrow> string option \<Rightarrow> props \<Rightarrow> exn option"
  pages_update :: "db_call list \<Rightarrow> pyval \<Rightarrow> props \<Rightarrow> exn option"

text \<open>The environment variables read at import time (lines 19 to 25).\<close>

record config =
  GARMIN_EMAIL :: "string option"
  GARMIN_PASSWORD :: "string option"
  NOTION_TOKEN :: "string option"
  NOTION_HEALTH_DATABASE_ID :: "string option"
  HEALTH_DAYS_BACK :: "string option"

text \<open>\<open>int(os.getenv('HEALTH_DAYS_BACK', 1))\<close>.\<close>

definition DAYS_BACK :: "runtime \<Rightarrow> config \<Rightarrow> exn + int" where
  "DAYS_BACK rt cfg =
     (case HEALTH_DAYS_BACK cfg of None \<Rightarrow> Inr 1 | Some s \<Rightarrow> int_of_str rt s)"

text \<open>Truth value of what \<open>os.getenv\<close> returns: set and not empty.\<close>

definition env_truthy :: "string option \<Rightarrow> bool" where
  "env_truthy v = (case v of None \<Rightarrow> False | Some s \<Rightarrow> s \<noteq> [])"

text \<open>\<open>check_credentials\<close>: \<open>False\<close> stands for \<open>sys.exit(1)\<close>.\<close>

definition check_credentials :: "config \<Rightarrow> bool" where
  "check_credentials cfg =
     (env_truthy (GARMIN_EMAIL cfg) \<and> env_truthy (GARMIN_PASSWORD cfg) \<and>
      env_truthy (NOTION_TOKEN cfg) \<and> env_truthy (NOTION_HEALTH_DATABASE_ID cfg))"

section \<open>The functions of the script\<close>

text \<open>\<open>entry_exists\<close> (lines 52 to 68): any exception of the query or of \<open>.get\<close> gives \<open>[]\<close>.\<close>

definition entry_exists ::
  "notion_client \<Rightarrow> string option \<Rightarrow> string \<Rightarrow> db_call list \<Rightarrow> pyval \<times> db_call list" where
  "entry_exists notion database_id date_str calls =
     ((case databases_query notion calls database_id date_str of
         Inl e \<Rightarrow> PList []
       | Inr query \<Rightarrow>
           (case py_get query ''results'' (PList []) of Inl e \<Rightarrow> PList [] | Inr r \<Rightarrow> r)),
      calls @ [Query database_id date_str])"

text \<open>
  \<open>create_notion_entry\<close> (lines 71 to 144): an exception while the properties are built
  is caught before \<open>pages.create\<close> is reached; an exception of \<open>pages.create\<close> is caught
  as well. Both give \<open>False\<close>.
\<close>

definition create_notion_entry ::
  "runtime \<Rightarrow> notion_client \<Rightarrow> string option \<Rightarrow> string \<Rightarrow> pyval \<Rightarrow> pyval \<Rightarrow> pyval \<Rightarrow>
   db_call list \<Rightarrow> bool \<times> db_call list" where
  "create_notion_entry rt notion database_id date_str hrv_data rhr_data vo2_data calls =
     (case create_properties rt date_str hrv_data rhr_data vo2_data of
        Inl e \<Rightarrow> (False, calls)
      | Inr properties \<Rightarrow>
          (pages_create notion calls database_id properties = None,
           calls @ [Create database_id properties]))"

text \<open>\<open>update_notion_entry\<close> (lines 147 to 208).\<close>

definition update_notion_entry ::
  "runtime \<Rightarrow> notion_client \<Rightarrow> pyval \<Rightarrow> pyval \<Rightarrow> pyval \<Rightarrow> pyval \<Rightarrow>
   db_call list \<Rightarrow> bool \<times> db_call list" where
  "update_notion_entry rt notion page_id hrv_data rhr_data vo2_data calls =
     (case update_properties rt hrv_data rhr_data vo2_data of
        Inl e \<Rightarrow> (False, calls)
      | Inr properties \<Rightarrow>
          (pages_update notion calls page_id properties = None,
           calls @ [Update page_id properties]))"

text \<open>
  One fetch of the loop body: \<open>x = None\<close>, then \<open>x = client.get(...)\<close> inside a
  \<open>try\<close> whose handler only logs a warning.
\<close>

definition fetched :: "exn + pyval \<Rightarrow> pyval" where
  "fetched r = (case r of Inl e \<Rightarrow> PNone | Inr v \<Rightarrow> v)"

text \<open>What one iteration of the loop does to the tallies.\<close>

datatype outcome = Created | Updated | Skipped | Failed

text \<open>
  The body of the loop of \<open>main\<close> (lines 232 to 285) for one date string.
  \<open>Skipped\<close> is the \<open>continue\<close> of line 260, \<open>Created\<close> and \<open>Updated\<close> are the two
  places where \<open>success_count\<close> is incremented, \<open>Failed\<close> the three where
  \<open>error_count\<close> is: a write that returned \<open>False\<close>, or an exception of
  \<open>existing_entries[0]['id']\<close> caught by the handler of line 281.
\<close>

definition sync_day ::
  "runtime \<Rightarrow> garmin_client \<Rightarrow> notion_client \<Rightarrow> string option \<Rightarrow> string \<Rightarrow>
   db_call list \<Rightarrow> outcome \<times> db_call list" where
  "sync_day rt garmin notion database_id date_str calls =
     (let hrv_data = fetched (get_hrv_data garmin date_str);
          rhr_data = fetched (get_rhr_day garmin date_str);
          vo2_data = fetched (get_max_metrics garmin date_str)
      in if \<not> (truthy hrv_data \<or> truthy rhr_data \<or> truthy vo2_data) then (Skipped, calls)
         else
           (case entry_exists notion database_id date_str calls of
              (existing_entries, calls1) \<Rightarrow>
                if truthy existing_entries then
                  (case raising (py_getitem0 existing_entries) (\<lambda>first. py_getitem first ''id'') of
                     Inl e \<Rightarrow> (Failed, calls1)
                   | Inr page_id \<Rightarrow>
                       (case update_notion_entry rt notion page_id hrv_data rhr_data vo2_data calls1 of
                          (ok, calls2) \<Rightarrow> (if ok then Updated else Failed, calls2)))
                else
                  (case create_notion_entry rt notion database_id date_str
                          hrv_data rhr_data vo2_data calls1 of
                     (ok, calls2) \<Rightarrow> (if ok then Created else Failed, calls2))))"

text \<open>\<open>range(n)\<close>: empty when \<open>n\<close> is not positive.\<close>

definition py_range :: "int \<Rightarrow> int list" where
  "py_range n = [0..n - 1]"

text \<open>
  The loop of \<open>main\<close> (lines 226 to 285) over the values of \<open>days_ago\<close>, with the two
  tallies and the calls made so far. \<open>today\<close> is the ordinal of the calendar day on
  which \<open>datetime.now()\<close> falls; the run is taken not to cross midnight.
\<close>

fun process_days ::
  "runtime \<Rightarrow> garmin_client \<Rightarrow> notion_client \<Rightarrow> string option \<Rightarrow> int \<Rightarrow> int list \<Rightarrow>
   nat \<times> nat \<times> db_call list \<Rightarrow> nat \<times> nat \<times> db_call list" where
  "process_days rt garmin notion database_id today [] st = st"
| "process_days rt garmin notion database_id today (days_ago # rest)
     (success_count, error_count, calls) =
     (case sync_day rt garmin notion database_id (strftime rt (today - days_ago)) calls of
        (Created, calls') \<Rightarrow>
          process_days rt garmin notion database_id today rest
            (success_count + 1, error_count, calls')
      | (Updated, calls') \<Rightarrow>
          process_days rt garmin notion database_id today rest
            (success_count + 1, error_count, calls')
      | (Skipped, calls') \<Rightarrow>
          process_days rt garmin notion database_id today rest
            (success_count, error_count, calls')
      | (Failed, calls') \<Rightarrow>
          process_days rt garmin notion database_id today rest
            (success_count, error_count + 1, calls'))"

text \<open>
  \<open>main\<close> (lines 211 to 293) with the value of the global \<open>DAYS_BACK\<close>: the exit status
  of the process and the calls made to Notion. \<open>check_credentials\<close> and
  \<open>connect_garmin\<close> end the process with status 1 before any day is processed.
\<close>

definition main ::
  "runtime \<Rightarrow> config \<Rightarrow> garmin_client \<Rightarrow> notion_client \<Rightarrow> int \<Rightarrow> int \<Rightarrow>
   db_call list \<Rightarrow> int \<times> db_call list" where
  "main rt cfg garmin notion today days_back calls =
     (if \<not> check_credentials cfg then (1, calls)
      else
        (case login garmin of
           Some e \<Rightarrow> (1, calls)
         | None \<Rightarrow>
             (case process_days rt garmin notion (NOTION_HEALTH_DATABASE_ID cfg) today
                     (py_range days_back) (0, 0, calls) of
                (success_count, error_count, calls') \<Rightarrow>
                  (if error_count = 0 then 0 else 1, calls'))))"


section \<open>A concrete environment\<close>

text \<open>
  Payloads of the shapes the Garmin client returns, used to run the functions above:
  an HRV summary, a resting-heart-rate metrics map whose list has two entries (the
  first value is the float written \<open>47.9\<close>, given by its exact value), and an HRV
  payload whose summary is \<open>null\<close>.
\<close>

definition hrv_payload :: pyval where
  "hrv_payload =
     PDict [(''hrvSummary'',
             PDict [(''lastNightAvg'', PInt 55), (''weeklyAvg'', PInt 60),
                    (''status'', PStr ''BALANCED'')])]"

definition rhr_payload :: pyval where
  "rhr_payload =
     PDict [(''allMetrics'',
             PDict [(''metricsMap'',
                     PDict [(''WELLNESS_RESTING_HEART_RATE'',
                             PList [PDict [(''value'',
                                            PFloat (Finite (6741325692220211 / 140737488355328)))],
                                    PDict [(''value'', PInt 99)]])])])]"

definition null_summary_payload :: pyval where
  "null_summary_payload = PDict [(''hrvSummary'', PNone)]"

definition demo_runtime :: runtime where
  "demo_runtime =
     \<lparr>int_of_str = (\<lambda>s. Inl ValueError),
      strftime = (\<lambda>i. if i = 19724 then ''2024-01-02''
                      else if i = 19723 then ''2024-01-01''
                      else if i = 19722 then ''2023-12-31'' else ''another day'')\<rparr>"

text \<open>
  A Garmin account with an HRV summary and a resting heart rate on 2024-01-01, whose
  max-metrics request fails, with a \<open>null\<close> HRV summary on 2023-12-31 and on
  2024-01-02, and with nothing on any other day.
\<close>

definition demo_garmin :: garmin_client where
  "demo_garmin =
     \<lparr>login = None,
      get_hrv_data = (\<lambda>d. if d = ''2024-01-01'' then Inr hrv_payload
                          else if d = ''2023-12-31'' \<or> d = ''2024-01-02''
                          then Inr null_summary_payload
                          else Inr PNone),
      get_rhr_day = (\<lambda>d. if d = ''2024-01-01'' then Inr rhr_payload
                         else if d = ''2023-12-31'' then Inr PNone
                         else Inl (ServiceError ''rhr'')),
      get_max_metrics = (\<lambda>d. if d = ''another day'' then Inr PNone
                             else Inl (ServiceError ''max metrics''))\<rparr>"

text \<open>
  An in-memory Notion database that accepts every write: a query for a date returns one
  page per earlier \<open>pages.create\<close> call whose \<open>Date\<close> property is that date, the page
  id being the number of \<open>pages.create\<close> calls that came before it.
\<close>

fun demo_results :: "string \<Rightarrow> db_call list \<Rightarrow> nat \<Rightarrow> pyval list" where
  "demo_results d [] i = []"
| "demo_results d (Create db p # cs) i =
     (if map_of p ''Date'' = Some (DateProp d) then [PDict [(''id'', PInt (int i))]] else [])
     @ demo_results d cs (Suc i)"
| "demo_results d (Query db q # cs) i = demo_results d cs i"
| "demo_results d (Update pid p # cs) i = demo_results d cs i"

definition demo_notion :: notion_client where
  "demo_notion =
     \<lparr>databases_query = (\<lambda>calls db d. Inr (PDict [(''results'', PList (demo_results d calls 0))])),
      pages_create = (\<lambda>calls db p. None),
      pages_update = (\<lambda>calls pid p. None)\<rparr>"

text \<open>A Notion service whose query always raises and whose writes are accepted.\<close>

definition failing_query_notion :: notion_client where
  "failing_query_notion =
     \<lparr>databases_query = (\<lambda>calls db d. Inl (ServiceError ''query'')),
      pages_create = (\<lambda>calls db p. None),
      pages_update = (\<lambda>calls pid p. None)\<rparr>"

text \<open>The in-memory database with a \<open>pages.update\<close> that always raises.\<close>

definition update_rejecting_notion :: notion_client where
  "update_rejecting_notion =
     demo_notion\<lparr>pages_update := (\<lambda>calls pid p. Some (ServiceError ''update''))\<rparr>"

text \<open>
  A resting-heart-rate payload whose first list element has a \<open>value\<close> key holding an
  object instead of a number.
\<close>

definition object_value_payload :: pyval where
  "object_value_payload =
     PDict [(''allMetrics'',
             PDict [(''metricsMap'',
                     PDict [(''WELLNESS_RESTING_HEART_RATE'',
                             PList [PDict [(''value'', PDict [(''avg'', PInt 47)])]])])])]"

definition demo_config :: config where
  "demo_config =
     \<lparr>GARMIN_EMAIL = Some ''user'', GARMIN_PASSWORD = Some ''secret'',
      NOTION_TOKEN = Some ''token'', NOTION_HEALTH_DATABASE_ID = Some ''db'',
      HEALTH_DAYS_BACK = None\<rparr>"

section \<open>Basic facts\<close>

lemma raising_Inl [simp]: "raising (Inl e) f = Inl e"
  by (simp add: raising_def)

lemma raising_Inr [simp]: "raising (Inr x) f = f x"
  by (simp add: raising_def)

lemma raising_twice: "raising m (\<lambda>x. raising m k) = raising m k"
  by (cases m) simp_all

section \<open>The two copies of the mapping agree\<close>

lemma add_hrv_same: "update_add_hrv p h = create_add_hrv p h"
  by (simp add: update_add_hrv_def create_add_hrv_def)

lemma add_vo2_same: "update_add_vo2 p v = create_add_vo2 p v"
  by (simp add: update_add_vo2_def create_add_vo2_def)

text \<open>The extra evaluation of \<open>rhr_data.get\<close> for the log line changes nothing.\<close>

lemma add_rhr_same: "update_add_rhr rt p r = create_add_rhr rt p r"
  unfolding update_add_rhr_def create_add_rhr_def raising_twice ..

text \<open>Each block commutes with the removal of \<open>Date\<close>, a key it never assigns.\<close>

lemma add_hrv_delete:
  "create_add_hrv (AList.delete ''Date'' p) h =
   map_sum id (AList.delete ''Date'') (create_add_hrv p h)"
  by (simp add: create_add_hrv_def raising_def delete_update Let_def
      split: sum.splits option.splits)

lemma add_rhr_delete:
  "create_add_rhr rt (AList.delete ''Date'' p) r =
   map_sum id (AList.delete ''Date'') (create_add_rhr rt p r)"
  by (simp add: create_add_rhr_def raising_def delete_update Let_def
      split: sum.splits option.splits)

lemma add_vo2_delete:
  "create_add_vo2 (AList.delete ''Date'' p) v =
   map_sum id (AList.delete ''Date'') (create_add_vo2 p v)"
  by (simp add: create_add_vo2_def raising_def delete_update Let_def
      split: sum.splits option.splits)

lemma update_properties_via_create:
  "update_properties rt h r v =
   map_sum id (AList.delete ''Date'') (create_properties rt d h r v)"
proof -
  have del: "AList.delete ''Date'' [(''Date'', DateProp d)] = []"
    by (simp add: AList.delete_eq)
  have hrv0: "create_add_hrv [] h =
      map_sum id (AList.delete ''Date'') (create_add_hrv [(''Date'', DateProp d)] h)"
    using add_hrv_delete [of "[(''Date'', DateProp d)]" h] by (simp only: del)
  show ?thesis
  proof (cases "create_add_hrv [(''Date'', DateProp d)] h")
    case (Inl e)
    then show ?thesis
      by (simp add: update_properties_def create_properties_def add_hrv_same hrv0)
  next
    case hrv: (Inr p1)
    show ?thesis
    proof (cases "create_add_rhr rt p1 r")
      case (Inl e)
      with hrv show ?thesis
        by (simp add: update_properties_def create_properties_def add_hrv_same add_rhr_same
            hrv0 add_rhr_delete)
    next
      case (Inr p2)
      with hrv show ?thesis
        by (simp add: update_properties_def create_properties_def add_hrv_same add_rhr_same
            add_vo2_same hrv0 add_rhr_delete add_vo2_delete)
    qed
  qed
qed

text \<open>
  Claim C10. For every raw metric bundle, the field set built by the update operation is
  the field set built by the create operation with the \<open>Date\<close> field removed; the two
  copies of the mapping also raise on the same bundles, with the same exception.
\<close>

theorem update_fields_are_create_fields_without_date:
  "update_properties rt hrv_data rhr_data vo2_data =
   map_sum id (AList.delete ''Date'')
     (create_properties rt date_str hrv_data rhr_data vo2_data)"
  by (rule update_properties_via_create)

section \<open>Running the mapping\<close>

lemma trunc_example: "trunc (6741325692220211 / 140737488355328) = 47"
proof -
  have "\<lfloor>6741325692220211 / 140737488355328 :: rat\<rfloor> = 47"
    by (rule floor_unique) simp_all
  then show ?thesis by (simp add: trunc_def)
qed

lemmas eval_defs = create_properties_def update_properties_def create_add_hrv_def create_add_rhr_def
  create_add_vo2_def update_add_hrv_def update_add_rhr_def update_add_vo2_def present_value_def
  hrv_payload_def rhr_payload_def null_summary_payload_def

lemma create_demo:
  "create_properties rt ''2024-01-01'' hrv_payload rhr_payload PNone =
   Inr [(''Date'', DateProp ''2024-01-01''), (''Last Night HRV'', NumberProp (PInt 55)),
        (''Weekly Avg HRV'', NumberProp (PInt 60)), (''HRV Status'', RichTextStr (PStr ''BALANCED'')),
        (''Resting Heart Rate'', NumberProp (PInt 47))]"
  by (simp add: eval_defs trunc_example)

lemma update_demo:
  "update_properties rt hrv_payload rhr_payload PNone =
   Inr [(''Last Night HRV'', NumberProp (PInt 55)),
        (''Weekly Avg HRV'', NumberProp (PInt 60)), (''HRV Status'', RichTextStr (PStr ''BALANCED'')),
        (''Resting Heart Rate'', NumberProp (PInt 47))]"
  by (simp add: eval_defs trunc_example)

section \<open>Keys a block does not assign are left as they are\<close>

lemma add_hrv_frame:
  "create_add_hrv p h = Inr p' \<Longrightarrow> k \<notin> {''Last Night HRV'', ''Weekly Avg HRV'', ''HRV Status''} \<Longrightarrow>
   map_of p' k = map_of p k"
  by (auto simp: create_add_hrv_def raising_def Let_def update_conv'
      split: sum.splits option.splits if_splits)

lemma add_rhr_frame:
  "create_add_rhr rt p r = Inr p' \<Longrightarrow> k \<noteq> ''Resting Heart Rate'' \<Longrightarrow> map_of p' k = map_of p k"
  by (auto simp: create_add_rhr_def raising_def Let_def update_conv'
      split: sum.splits option.splits if_splits)

lemma add_vo2_frame:
  "create_add_vo2 p v = Inr p' \<Longrightarrow> k \<notin> {''VO2 Max'', ''Fitness Age''} \<Longrightarrow> map_of p' k = map_of p k"
  by (auto simp: create_add_vo2_def raising_def Let_def update_conv'
      split: sum.splits option.splits if_splits)

lemma create_properties_Date:
  assumes "create_properties rt d h r v = Inr p"
  shows "map_of p ''Date'' = Some (DateProp d)"
proof -
  from assms obtain p1 p2 where
    1: "create_add_hrv [(''Date'', DateProp d)] h = Inr p1" and
    2: "create_add_rhr rt p1 r = Inr p2" and
    3: "create_add_vo2 p2 v = Inr p"
    by (auto simp: create_properties_def raising_def split: sum.splits)
  have "map_of p ''Date'' = map_of p2 ''Date''" using add_vo2_frame [OF 3] by simp
  also have "\<dots> = map_of p1 ''Date''" using add_rhr_frame [OF 2] by simp
  also have "\<dots> = map_of [(''Date'', DateProp d)] ''Date''" using add_hrv_frame [OF 1] by simp
  finally show ?thesis by simp
qed

lemma update_properties_no_Date:
  assumes "update_properties rt h r v = Inr p"
  shows "map_of p ''Date'' = None"
proof -
  from assms update_properties_via_create [of rt h r v undefined]
  obtain p0 where "p = AList.delete ''Date'' p0"
    by (cases "create_properties rt undefined h r v") auto
  then show ?thesis by (simp add: delete_conv')
qed

text \<open>Each block leaves an entry at the front of the properties where it is.\<close>

lemma add_hrv_Cons_Date:
  "create_add_hrv ((''Date'', x) # p) h = map_sum id ((#) (''Date'', x)) (create_add_hrv p h)"
  by (simp add: create_add_hrv_def raising_def Let_def split: sum.splits option.splits)

lemma add_rhr_Cons_Date:
  "create_add_rhr rt ((''Date'', x) # p) r =
   map_sum id ((#) (''Date'', x)) (create_add_rhr rt p r)"
  by (simp add: create_add_rhr_def raising_def Let_def split: sum.splits option.splits)

lemma add_vo2_Cons_Date:
  "create_add_vo2 ((''Date'', x) # p) v = map_sum id ((#) (''Date'', x)) (create_add_vo2 p v)"
  by (simp add: create_add_vo2_def raising_def Let_def split: sum.splits option.splits)

lemma create_properties_via_update:
  "create_properties rt d h r v =
   map_sum id ((#) (''Date'', DateProp d)) (update_properties rt h r v)"
proof (cases "create_add_hrv [] h")
  case (Inl e)
  then show ?thesis
    by (simp add: update_properties_def create_properties_def add_hrv_same add_hrv_Cons_Date)
next
  case hrv: (Inr p1)
  show ?thesis
  proof (cases "create_add_rhr rt p1 r")
    case (Inl e)
    with hrv show ?thesis
      by (simp add: update_properties_def create_properties_def add_hrv_same add_rhr_same
          add_hrv_Cons_Date add_rhr_Cons_Date)
  next
    case (Inr p2)
    with hrv show ?thesis
      by (simp add: update_properties_def create_properties_def add_hrv_same add_rhr_same
          add_vo2_same add_hrv_Cons_Date add_rhr_Cons_Date add_vo2_Cons_Date)
  qed
qed

lemma create_nothing_fetched:
  "create_properties rt d PNone PNone PNone = Inr [(''Date'', DateProp d)]"
  by (simp add: create_properties_def create_add_hrv_def create_add_rhr_def create_add_vo2_def)

text \<open>
  Claim C5. For every bundle and date, \<open>create_notion_entry\<close> builds the properties
  that \<open>update_notion_entry\<close> builds for the bundle with the \<open>Date\<close> field, set to the
  date string, in front; whenever they can be built it calls \<open>pages.create\<close> with
  exactly these properties, \<open>Date\<close> included (with \<open>Date\<close> alone when nothing was
  fetched). \<open>update_notion_entry\<close> calls \<open>pages.update\<close> with exactly the properties it
  builds, which never have a \<open>Date\<close> field. When the properties cannot be built, neither
  function makes a call.
\<close>

theorem date_sent_on_create_only:
  "create_properties rt date_str hrv_data rhr_data vo2_data =
     map_sum id ((#) (''Date'', DateProp date_str))
       (update_properties rt hrv_data rhr_data vo2_data) \<and>
   create_properties rt date_str PNone PNone PNone = Inr [(''Date'', DateProp date_str)] \<and>
   (\<forall>p. create_properties rt date_str hrv_data rhr_data vo2_data = Inr p \<longrightarrow>
        map_of p ''Date'' = Some (DateProp date_str) \<and>
        create_notion_entry rt notion db date_str hrv_data rhr_data vo2_data calls =
          (pages_create notion calls db p = None, calls @ [Create db p])) \<and>
   (\<forall>e. create_properties rt date_str hrv_data rhr_data vo2_data = Inl e \<longrightarrow>
        create_notion_entry rt notion db date_str hrv_data rhr_data vo2_data calls =
          (False, calls)) \<and>
   (\<forall>p. update_properties rt hrv_data rhr_data vo2_data = Inr p \<longrightarrow>
        map_of p ''Date'' = None \<and>
        update_notion_entry rt notion page_id hrv_data rhr_data vo2_data calls =
          (pages_update notion calls page_id p = None, calls @ [Update page_id p])) \<and>
   (\<forall>e. update_properties rt hrv_data rhr_data vo2_data = Inl e \<longrightarrow>
        update_notion_entry rt notion page_id hrv_data rhr_data vo2_data calls =
          (False, calls))"
proof (intro conjI)
  show "create_properties rt date_str hrv_data rhr_data vo2_data =
     map_sum id ((#) (''Date'', DateProp date_str))
       (update_properties rt hrv_data rhr_data vo2_data)"
    by (rule create_properties_via_update)
  show "create_properties rt date_str PNone PNone PNone = Inr [(''Date'', DateProp date_str)]"
    by (rule create_nothing_fetched)
  show "\<forall>p. create_properties rt date_str hrv_data rhr_data vo2_data = Inr p \<longrightarrow>
        map_of p ''Date'' = Some (DateProp date_str) \<and>
        create_notion_entry rt notion db date_str hrv_data rhr_data vo2_data calls =
          (pages_create notion calls db p = None, calls @ [Create db p])"
    by (simp add: create_notion_entry_def create_properties_Date)
  show "\<forall>e. create_properties rt date_str hrv_data rhr_data vo2_data = Inl e \<longrightarrow>
        create_notion_entry rt notion db date_str hrv_data rhr_data vo2_data calls =
          (False, calls)"
    by (simp add: create_notion_entry_def)
  show "\<forall>p. update_properties rt hrv_data rhr_data vo2_data = Inr p \<longrightarrow>
        map_of p ''Date'' = None \<and>
        update_notion_entry rt notion page_id hrv_data rhr_data vo2_data calls =
          (pages_update notion calls page_id p = None, calls @ [Update page_id p])"
    by (simp add: update_notion_entry_def update_properties_no_Date)
  show "\<forall>e. update_properties rt hrv_data rhr_data vo2_data = Inl e \<longrightarrow>
        update_notion_entry rt notion page_id hrv_data rhr_data vo2_data calls =
          (False, calls)"
    by (simp add: update_notion_entry_def)
qed

theorem date_sent_on_create_only_witness:
  "create_notion_entry demo_runtime demo_notion (Some ''db'') ''2024-01-01''
     hrv_payload rhr_payload PNone [] =
     (True,
      [Create (Some ''db'')
         [(''Date'', DateProp ''2024-01-01''), (''Last Night HRV'', NumberProp (PInt 55)),
          (''Weekly Avg HRV'', NumberProp (PInt 60)),
          (''HRV Status'', RichTextStr (PStr ''BALANCED'')),
          (''Resting Heart Rate'', NumberProp (PInt 47))]]) \<and>
   map_of [(''Date'', DateProp ''2024-01-01''), (''Last Night HRV'', NumberProp (PInt 55)),
        (''Weekly Avg HRV'', NumberProp (PInt 60)), (''HRV Status'', RichTextStr (PStr ''BALANCED'')),
        (''Resting Heart Rate'', NumberProp (PInt 47))] ''Date'' = Some (DateProp ''2024-01-01'') \<and>
   update_notion_entry demo_runtime demo_notion (PInt 0) hrv_payload rhr_payload PNone [] =
     (True,
      [Update (PInt 0)
         [(''Last Night HRV'', NumberProp (PInt 55)),
          (''Weekly Avg HRV'', NumberProp (PInt 60)),
          (''HRV Status'', RichTextStr (PStr ''BALANCED'')),
          (''Resting Heart Rate'', NumberProp (PInt 47))]]) \<and>
   map_of [(''Last Night HRV'', NumberProp (PInt 55)),
        (''Weekly Avg HRV'', NumberProp (PInt 60)), (''HRV Status'', RichTextStr (PStr ''BALANCED'')),
        (''Resting Heart Rate'', NumberProp (PInt 47))] ''Date'' = None"
  using date_sent_on_create_only [of demo_runtime "''2024-01-01''" hrv_payload rhr_payload PNone
      demo_notion "Some ''db''" "[]" "PInt 0"]
  by (simp add: create_demo update_demo demo_notion_def)

section \<open>Resting heart rate\<close>

lemma trunc_towards_zero:
  "(0 \<le> q \<longrightarrow> of_int (trunc q) \<le> q \<and> q < of_int (trunc q) + 1) \<and>
   (q < 0 \<longrightarrow> q \<le> of_int (trunc q) \<and> of_int (trunc q) - 1 < q)"
  by (simp add: trunc_def) linarith

lemma add_rhr_first_value:
  assumes "map_of a ''allMetrics'' = Some (PDict b)"
    and "map_of b ''metricsMap'' = Some (PDict c)"
    and "map_of c ''WELLNESS_RESTING_HEART_RATE'' = Some (PList (PDict x # rest))"
    and "map_of x ''value'' = Some v"
    and "py_int rt v = Inr i"
  shows "create_add_rhr rt p (PDict a) =
         Inr (AList.update ''Resting Heart Rate'' (NumberProp (PInt i)) p)"
proof -
  from assms(1) have "a \<noteq> []" by auto
  with assms show ?thesis by (simp add: create_add_rhr_def)
qed

lemma create_properties_rhr:
  assumes rhr: "\<And>p. create_add_rhr rt p r = Inr (AList.update ''Resting Heart Rate'' w p)"
    and res: "create_properties rt d h r v = Inr p'"
  shows "map_of p' ''Resting Heart Rate'' = Some w"
proof -
  from res obtain p1 p2 where
    2: "create_add_rhr rt p1 r = Inr p2" and
    3: "create_add_vo2 p2 v = Inr p'"
    by (auto simp: create_properties_def raising_def split: sum.splits)
  from 2 rhr have "p2 = AList.update ''Resting Heart Rate'' w p1" by simp
  moreover have "map_of p' ''Resting Heart Rate'' = map_of p2 ''Resting Heart Rate''"
    using add_vo2_frame [OF 3] by simp
  ultimately show ?thesis by (simp add: update_conv')
qed

lemma update_properties_rhr:
  assumes rhr: "\<And>p. create_add_rhr rt p r = Inr (AList.update ''Resting Heart Rate'' w p)"
    and res: "update_properties rt h r v = Inr p'"
  shows "map_of p' ''Resting Heart Rate'' = Some w"
proof -
  from res update_properties_via_create [of rt h r v "[]"]
  obtain p0 where c: "create_properties rt [] h r v = Inr p0" and p': "p' = AList.delete ''Date'' p0"
    by (cases "create_properties rt [] h r v") auto
  from create_properties_rhr [OF rhr c] p' show ?thesis by simp
qed

text \<open>
  Claim C4 as stated fails when the \<open>value\<close> of the first element is not something
  \<open>int()\<close> accepts: with an object under \<open>value\<close>, \<open>int(rhr_value)\<close> raises
  \<open>TypeError\<close> in both copies of the mapping, no \<open>Resting Heart Rate\<close> is emitted and
  nothing is sent.
\<close>

theorem value_that_is_not_a_number_raises:
  "create_add_rhr demo_runtime [] object_value_payload = Inl TypeError \<and>
   update_add_rhr demo_runtime [] object_value_payload = Inl TypeError \<and>
   create_properties demo_runtime ''2024-01-01'' PNone object_value_payload PNone =
     Inl TypeError \<and>
   update_properties demo_runtime PNone object_value_payload PNone = Inl TypeError \<and>
   create_notion_entry demo_runtime demo_notion (Some ''db'') ''2024-01-01''
     PNone object_value_payload PNone [] = (False, [])"
  by (simp add: create_notion_entry_def create_properties_def update_properties_def
      create_add_hrv_def update_add_hrv_def create_add_rhr_def update_add_rhr_def
      object_value_payload_def)

text \<open>
  Claim C4, amended. When the resting-heart-rate payload holds, under \<open>allMetrics\<close>,
  \<open>metricsMap\<close> and \<open>WELLNESS_RESTING_HEART_RATE\<close>, a non-empty list whose first element
  is an object with a \<open>value\<close> key, and \<open>int()\<close> accepts that value, both copies of the
  mapping set \<open>Resting Heart Rate\<close> to \<open>int\<close> of the value, whatever the rest of the
  list is; for a float this is the truncation towards zero. The mapper then returns
  exactly when the HRV and the VO2 blocks raise nothing, every property set it returns
  has the field, and when the other two payloads are absent it returns exactly that
  field (with \<open>Date\<close> on create).
\<close>

theorem resting_heart_rate_from_first_element:
  assumes "map_of a ''allMetrics'' = Some (PDict b)"
    and "map_of b ''metricsMap'' = Some (PDict c)"
    and "map_of c ''WELLNESS_RESTING_HEART_RATE'' = Some (PList (PDict x # rest))"
    and "map_of x ''value'' = Some v"
    and "py_int rt v = Inr i"
  shows "create_add_rhr rt p (PDict a) =
           Inr (AList.update ''Resting Heart Rate'' (NumberProp (PInt i)) p) \<and>
         update_add_rhr rt p (PDict a) =
           Inr (AList.update ''Resting Heart Rate'' (NumberProp (PInt i)) p) \<and>
         (\<forall>q. v = PFloat (Finite q) \<longrightarrow> i = trunc q) \<and>
         create_properties rt d hrv_data (PDict a) vo2_data =
           raising (create_add_hrv [(''Date'', DateProp d)] hrv_data)
             (\<lambda>p1. create_add_vo2
                     (AList.update ''Resting Heart Rate'' (NumberProp (PInt i)) p1) vo2_data) \<and>
         update_properties rt hrv_data (PDict a) vo2_data =
           raising (update_add_hrv [] hrv_data)
             (\<lambda>p1. update_add_vo2
                     (AList.update ''Resting Heart Rate'' (NumberProp (PInt i)) p1) vo2_data) \<and>
         (\<forall>p'. create_properties rt d hrv_data (PDict a) vo2_data = Inr p' \<longrightarrow>
               map_of p' ''Resting Heart Rate'' = Some (NumberProp (PInt i))) \<and>
         (\<forall>p'. update_properties rt hrv_data (PDict a) vo2_data = Inr p' \<longrightarrow>
               map_of p' ''Resting Heart Rate'' = Some (NumberProp (PInt i))) \<and>
         create_properties rt d PNone (PDict a) PNone =
           Inr [(''Date'', DateProp d), (''Resting Heart Rate'', NumberProp (PInt i))] \<and>
         update_properties rt PNone (PDict a) PNone =
           Inr [(''Resting Heart Rate'', NumberProp (PInt i))]"
proof -
  note first = add_rhr_first_value [OF assms]
  have "\<forall>q. v = PFloat (Finite q) \<longrightarrow> i = trunc q"
    using assms(5) by auto
  moreover have "create_properties rt d hrv_data (PDict a) vo2_data =
           raising (create_add_hrv [(''Date'', DateProp d)] hrv_data)
             (\<lambda>p1. create_add_vo2
                     (AList.update ''Resting Heart Rate'' (NumberProp (PInt i)) p1) vo2_data)"
    by (simp add: create_properties_def first)
  moreover have "update_properties rt hrv_data (PDict a) vo2_data =
           raising (update_add_hrv [] hrv_data)
             (\<lambda>p1. update_add_vo2
                     (AList.update ''Resting Heart Rate'' (NumberProp (PInt i)) p1) vo2_data)"
    by (simp add: update_properties_def add_rhr_same first)
  moreover have "create_properties rt d PNone (PDict a) PNone =
      Inr [(''Date'', DateProp d), (''Resting Heart Rate'', NumberProp (PInt i))]"
    by (simp add: create_properties_def create_add_hrv_def create_add_vo2_def first)
  moreover have "update_properties rt PNone (PDict a) PNone =
      Inr [(''Resting Heart Rate'', NumberProp (PInt i))]"
    by (simp add: update_properties_def update_add_hrv_def update_add_vo2_def add_rhr_same first)
  moreover have "\<forall>p'. create_properties rt d hrv_data (PDict a) vo2_data = Inr p' \<longrightarrow>
               map_of p' ''Resting Heart Rate'' = Some (NumberProp (PInt i))"
    using create_properties_rhr [OF first] by blast
  moreover have "\<forall>p'. update_properties rt hrv_data (PDict a) vo2_data = Inr p' \<longrightarrow>
               map_of p' ''Resting Heart Rate'' = Some (NumberProp (PInt i))"
    using update_properties_rhr [OF first] by blast
  moreover have "update_add_rhr rt p (PDict a) =
           Inr (AList.update ''Resting Heart Rate'' (NumberProp (PInt i)) p)"
    by (simp add: add_rhr_same first)
  ultimately show ?thesis
    using first [of p] by blast
qed

theorem resting_heart_rate_from_first_element_witness:
  "create_add_rhr demo_runtime [] rhr_payload =
     Inr [(''Resting Heart Rate'', NumberProp (PInt 47))] \<and>
   update_add_rhr demo_runtime [] rhr_payload =
     Inr [(''Resting Heart Rate'', NumberProp (PInt 47))] \<and>
   trunc (6741325692220211 / 140737488355328) = 47 \<and>
   create_properties demo_runtime ''2024-01-01'' PNone rhr_payload PNone =
     Inr [(''Date'', DateProp ''2024-01-01''), (''Resting Heart Rate'', NumberProp (PInt 47))] \<and>
   update_properties demo_runtime PNone rhr_payload PNone =
     Inr [(''Resting Heart Rate'', NumberProp (PInt 47))]"
  using resting_heart_rate_from_first_element
    [of "[(''allMetrics'',
             PDict [(''metricsMap'',
                     PDict [(''WELLNESS_RESTING_HEART_RATE'',
                             PList [PDict [(''value'',
                                            PFloat (Finite (6741325692220211 / 140737488355328)))],
                                    PDict [(''value'', PInt 99)]])])])]"
        "[(''metricsMap'',
                     PDict [(''WELLNESS_RESTING_HEART_RATE'',
                             PList [PDict [(''value'',
                                            PFloat (Finite (6741325692220211 / 140737488355328)))],
                                    PDict [(''value'', PInt 99)]])])]"
        "[(''WELLNESS_RESTING_HEART_RATE'',
                             PList [PDict [(''value'',
                                            PFloat (Finite (6741325692220211 / 140737488355328)))],
                                    PDict [(''value'', PInt 99)]])]"
        "[(''value'', PFloat (Finite (6741325692220211 / 140737488355328)))]"
        "[PDict [(''value'', PInt 99)]]"
        "PFloat (Finite (6741325692220211 / 140737488355328))"
        demo_runtime 47 "[]" "''2024-01-01''" PNone PNone]
  by (simp add: rhr_payload_def trunc_example create_add_hrv_def create_add_vo2_def
      update_add_hrv_def update_add_vo2_def)

section \<open>One day\<close>


text \<open>
  Claim C3. When none of the three fetched payloads is present (each is \<open>None\<close>, as
  after a failed fetch, or empty), the day is skipped and no call is made to the
  database: the record of calls is unchanged.
\<close>

theorem nothing_fetched_skips_without_database_call:
  assumes "\<not> truthy (fetched (get_hrv_data garmin date_str))"
    and "\<not> truthy (fetched (get_rhr_day garmin date_str))"
    and "\<not> truthy (fetched (get_max_metrics garmin date_str))"
  shows "sync_day rt garmin notion db date_str calls = (Skipped, calls)"
  using assms by (simp add: sync_day_def)

theorem nothing_fetched_skips_without_database_call_witness:
  "fetched (get_hrv_data demo_garmin ''another day'') = PNone \<and>
   fetched (get_rhr_day demo_garmin ''another day'') = PNone \<and>
   fetched (get_max_metrics demo_garmin ''another day'') = PNone \<and>
   sync_day demo_runtime demo_garmin demo_notion (Some ''db'') ''another day'' [] = (Skipped, [])"
  using nothing_fetched_skips_without_database_call
    [of demo_garmin "''another day''" demo_runtime demo_notion "Some ''db''" "[]"]
  by (simp add: demo_garmin_def fetched_def)

section \<open>Running one day in the concrete environment\<close>

lemma truthy_payloads [simp]:
  "truthy hrv_payload" "truthy rhr_payload" "truthy null_summary_payload"
  by (simp_all add: hrv_payload_def rhr_payload_def null_summary_payload_def)

lemma demo_strftime [simp]:
  "strftime demo_runtime 19723 = ''2024-01-01''"
  "strftime demo_runtime 19722 = ''2023-12-31''"
  "strftime demo_runtime 19721 = ''another day''"
  by (simp_all add: demo_runtime_def)

lemma demo_fetch_first [simp]:
  "fetched (get_hrv_data demo_garmin ''2024-01-01'') = hrv_payload"
  "fetched (get_rhr_day demo_garmin ''2024-01-01'') = rhr_payload"
  "fetched (get_max_metrics demo_garmin ''2024-01-01'') = PNone"
  by (simp_all add: demo_garmin_def fetched_def)

lemma demo_fetch_second [simp]:
  "fetched (get_hrv_data demo_garmin ''2023-12-31'') = null_summary_payload"
  "fetched (get_rhr_day demo_garmin ''2023-12-31'') = PNone"
  "fetched (get_max_metrics demo_garmin ''2023-12-31'') = PNone"
  by (simp_all add: demo_garmin_def fetched_def)

lemma demo_fetch_third [simp]:
  "fetched (get_hrv_data demo_garmin ''another day'') = PNone"
  "fetched (get_rhr_day demo_garmin ''another day'') = PNone"
  "fetched (get_max_metrics demo_garmin ''another day'') = PNone"
  by (simp_all add: demo_garmin_def fetched_def)

lemma sync_day_demo_first:
  "sync_day demo_runtime demo_garmin demo_notion (Some ''db'') ''2024-01-01'' [] =
   (Created,
    [Query (Some ''db'') ''2024-01-01'',
     Create (Some ''db'')
       [(''Date'', DateProp ''2024-01-01''), (''Last Night HRV'', NumberProp (PInt 55)),
        (''Weekly Avg HRV'', NumberProp (PInt 60)),
        (''HRV Status'', RichTextStr (PStr ''BALANCED'')),
        (''Resting Heart Rate'', NumberProp (PInt 47))]])"
  by (simp add: sync_day_def entry_exists_def demo_notion_def create_notion_entry_def create_demo)

section \<open>A payload that is absent or lacks a key adds no field\<close>

lemma absent_payload_adds_nothing:
  "create_add_hrv p PNone = Inr p" "create_add_rhr rt p PNone = Inr p"
  "create_add_vo2 p PNone = Inr p"
  by (simp_all add: create_add_hrv_def create_add_rhr_def create_add_vo2_def)

lemma missing_key_adds_nothing:
  "map_of a ''hrvSummary'' = None \<Longrightarrow> create_add_hrv p (PDict a) = Inr p"
  "map_of a ''allMetrics'' = None \<Longrightarrow> create_add_rhr rt p (PDict a) = Inr p"
  "map_of a ''vo2MaxValue'' = None \<Longrightarrow> map_of a ''fitnessAge'' = None \<Longrightarrow>
   create_add_vo2 p (PDict a) = Inr p"
  by (simp_all add: create_add_hrv_def create_add_rhr_def create_add_vo2_def present_value_def)

lemma missing_inner_key_adds_nothing:
  "map_of a ''hrvSummary'' = Some (PDict b) \<Longrightarrow> map_of b ''lastNightAvg'' = None \<Longrightarrow>
   map_of b ''weeklyAvg'' = None \<Longrightarrow> map_of b ''status'' = None \<Longrightarrow>
   create_add_hrv p (PDict a) = Inr p"
  "map_of a ''allMetrics'' = Some (PDict b) \<Longrightarrow> map_of b ''metricsMap'' = None \<Longrightarrow>
   create_add_rhr rt p (PDict a) = Inr p"
  "map_of a ''allMetrics'' = Some (PDict b) \<Longrightarrow> map_of b ''metricsMap'' = Some (PDict c) \<Longrightarrow>
   map_of c ''WELLNESS_RESTING_HEART_RATE'' = None \<or>
   map_of c ''WELLNESS_RESTING_HEART_RATE'' = Some (PList []) \<or>
   map_of c ''WELLNESS_RESTING_HEART_RATE'' = Some PNone \<Longrightarrow>
   create_add_rhr rt p (PDict a) = Inr p"
  by (auto simp: create_add_hrv_def create_add_rhr_def present_value_def)

section \<open>A payload with a null object on the path\<close>

lemma create_null_summary:
  "create_properties rt d null_summary_payload r v = Inl TypeError"
  by (simp add: create_properties_def create_add_hrv_def null_summary_payload_def
      present_value_def)

lemma update_null_summary:
  "update_properties rt null_summary_payload r v = Inl TypeError"
  by (simp add: update_properties_def update_add_hrv_def null_summary_payload_def
      present_value_def)

text \<open>
  Claim C2 says that a \<open>null\<close> at any depth of a source path gives no field and no
  exception. The code tests the leaves for \<open>None\<close> but not the objects on the way:
  with \<open>{"hrvSummary": null}\<close> the test \<open>'lastNightAvg' in hrv_summary\<close> raises
  \<open>TypeError\<close> in both copies of the mapping, whatever the other two payloads are; no
  write is issued and the day is counted as an error.
\<close>

theorem null_hrv_summary_raises:
  "create_properties rt date_str null_summary_payload rhr_data vo2_data = Inl TypeError \<and>
   update_properties rt null_summary_payload rhr_data vo2_data = Inl TypeError \<and>
   sync_day rt (garmin\<lparr>get_hrv_data := \<lambda>x. Inr null_summary_payload\<rparr>) notion db date_str calls =
     (Failed, calls @ [Query db date_str])"
  by (simp add: create_null_summary update_null_summary sync_day_def fetched_def
      entry_exists_def create_notion_entry_def update_notion_entry_def Let_def
      split: sum.splits)

section \<open>A query that fails\<close>

text \<open>
  Claim C6. When the query of the Record Locator raises, \<open>entry_exists\<close> returns the
  empty list, and a day that has data goes on to \<open>create_notion_entry\<close>: its outcome
  is that of the create attempt, no \<open>pages.update\<close> call is issued, and when the
  properties can be built and \<open>pages.create\<close> accepts them the day ends \<open>Created\<close>.
\<close>

theorem failed_query_leads_to_create:
  assumes "databases_query notion calls db date_str = Inl e"
    and "hrv_data = fetched (get_hrv_data garmin date_str)"
    and "rhr_data = fetched (get_rhr_day garmin date_str)"
    and "vo2_data = fetched (get_max_metrics garmin date_str)"
    and "truthy hrv_data \<or> truthy rhr_data \<or> truthy vo2_data"
  shows "entry_exists notion db date_str calls = (PList [], calls @ [Query db date_str]) \<and>
         sync_day rt garmin notion db date_str calls =
           (case create_notion_entry rt notion db date_str hrv_data rhr_data vo2_data
                   (calls @ [Query db date_str]) of
              (ok, calls2) \<Rightarrow> (if ok then Created else Failed, calls2)) \<and>
         (\<forall>page_id p. Update page_id p \<in> set (snd (sync_day rt garmin notion db date_str calls))
            \<longrightarrow> Update page_id p \<in> set calls) \<and>
         (\<forall>p. create_properties rt date_str hrv_data rhr_data vo2_data = Inr p \<and>
              pages_create notion (calls @ [Query db date_str]) db p = None \<longrightarrow>
              sync_day rt garmin notion db date_str calls =
                (Created, calls @ [Query db date_str, Create db p]))"
proof -
  have ee: "entry_exists notion db date_str calls = (PList [], calls @ [Query db date_str])"
    using assms(1) by (simp add: entry_exists_def)
  have sd: "sync_day rt garmin notion db date_str calls =
           (case create_notion_entry rt notion db date_str hrv_data rhr_data vo2_data
                   (calls @ [Query db date_str]) of
              (ok, calls2) \<Rightarrow> (if ok then Created else Failed, calls2))"
    using assms(2-5) by (auto simp: sync_day_def ee)
  have "\<forall>page_id p. Update page_id p \<in> set (snd (sync_day rt garmin notion db date_str calls))
            \<longrightarrow> Update page_id p \<in> set calls"
    by (auto simp: sd create_notion_entry_def split: sum.splits)
  moreover have "\<forall>p. create_properties rt date_str hrv_data rhr_data vo2_data = Inr p \<and>
              pages_create notion (calls @ [Query db date_str]) db p = None \<longrightarrow>
              sync_day rt garmin notion db date_str calls =
                (Created, calls @ [Query db date_str, Create db p])"
    by (auto simp: sd create_notion_entry_def)
  ultimately show ?thesis using ee sd by blast
qed

theorem failed_query_leads_to_create_witness:
  "databases_query failing_query_notion [] (Some ''db'') ''2024-01-01'' = Inl (ServiceError ''query'') \<and>
   truthy hrv_payload \<and>
   entry_exists failing_query_notion (Some ''db'') ''2024-01-01'' [] =
     (PList [], [Query (Some ''db'') ''2024-01-01'']) \<and>
   sync_day demo_runtime demo_garmin failing_query_notion (Some ''db'') ''2024-01-01'' [] =
     (Created,
      [Query (Some ''db'') ''2024-01-01'',
       Create (Some ''db'')
         [(''Date'', DateProp ''2024-01-01''), (''Last Night HRV'', NumberProp (PInt 55)),
          (''Weekly Avg HRV'', NumberProp (PInt 60)),
          (''HRV Status'', RichTextStr (PStr ''BALANCED'')),
          (''Resting Heart Rate'', NumberProp (PInt 47))]])"
  using failed_query_leads_to_create
    [of failing_query_notion "[]" "Some ''db''" "''2024-01-01''" "ServiceError ''query''"
        hrv_payload demo_garmin rhr_payload PNone demo_runtime]
  by (simp add: failing_query_notion_def create_notion_entry_def create_demo)

section \<open>A fetch that fails\<close>



section \<open>The loop over the days\<close>



lemma py_range_small: "py_range 1 = [0]" "py_range 3 = [0, 1, 2]"
  by (simp_all add: py_range_def upto_rec1)







section \<open>Running the loop in the concrete environment\<close>

lemma demo_more_days [simp]:
  "strftime demo_runtime 19724 = ''2024-01-02''"
  "fetched (get_hrv_data demo_garmin ''2024-01-02'') = null_summary_payload"
  "fetched (get_rhr_day demo_garmin ''2024-01-02'') = PNone"
  "fetched (get_max_metrics demo_garmin ''2024-01-02'') = PNone"
  by (simp_all add: demo_runtime_def demo_garmin_def fetched_def)

lemma sync_day_demo_null_summary:
  "sync_day demo_runtime demo_garmin demo_notion (Some ''db'') ''2023-12-31'' calls =
   (Failed, calls @ [Query (Some ''db'') ''2023-12-31''])"
  "sync_day demo_runtime demo_garmin demo_notion (Some ''db'') ''2024-01-02'' calls =
   (Failed, calls @ [Query (Some ''db'') ''2024-01-02''])"
  by (simp_all add: sync_day_def entry_exists_def create_notion_entry_def update_notion_entry_def
      create_null_summary update_null_summary Let_def split: sum.splits)


lemma demo_config_ok:
  "check_credentials demo_config" "NOTION_HEALTH_DATABASE_ID demo_config = Some ''db''"
  "login demo_garmin = None"
  by (simp_all add: check_credentials_def demo_config_def env_truthy_def demo_garmin_def)


lemma main_demo_default:
  "main demo_runtime demo_config demo_garmin demo_notion 19723 1 [] =
   (0,
    [Query (Some ''db'') ''2024-01-01'',
     Create (Some ''db'')
       [(''Date'', DateProp ''2024-01-01''), (''Last Night HRV'', NumberProp (PInt 55)),
        (''Weekly Avg HRV'', NumberProp (PInt 60)),
        (''HRV Status'', RichTextStr (PStr ''BALANCED'')),
        (''Resting Heart Rate'', NumberProp (PInt 47))]])"
  by (simp add: main_def demo_config_ok py_range_small sync_day_demo_first)

section \<open>The exit status\<close>



section \<open>The default day count\<close>

text \<open>
  Claim C9 says that the default count of 1 covers yesterday and today, and the comment
  on \<open>DAYS_BACK\<close> says that the default is yesterday. The loop runs over
  \<open>range(DAYS_BACK)\<close>, so with the variable unset it visits \<open>days_ago = 0\<close> only:
  \<open>main\<close> processes today and makes no call for yesterday, a day for which the account
  has data and on which the loop body would have issued a query.
\<close>

theorem default_count_processes_today_only:
  "DAYS_BACK demo_runtime demo_config = Inr 1 \<and>
   py_range 1 = [0] \<and>
   strftime demo_runtime 19723 = ''2024-01-01'' \<and>
   strftime demo_runtime (19723 - 1) = ''2023-12-31'' \<and>
   main demo_runtime demo_config demo_garmin demo_notion 19723 1 [] =
   (0,
    [Query (Some ''db'') ''2024-01-01'',
     Create (Some ''db'')
       [(''Date'', DateProp ''2024-01-01''), (''Last Night HRV'', NumberProp (PInt 55)),
        (''Weekly Avg HRV'', NumberProp (PInt 60)),
        (''HRV Status'', RichTextStr (PStr ''BALANCED'')),
        (''Resting Heart Rate'', NumberProp (PInt 47))]]) \<and>
   Query (Some ''db'') ''2023-12-31'' \<notin>
     set (snd (main demo_runtime demo_config demo_garmin demo_notion 19723 1 [])) \<and>
   sync_day demo_runtime demo_garmin demo_notion (Some ''db'') ''2023-12-31'' [] =
     (Failed, [Query (Some ''db'') ''2023-12-31''])"
proof -
  have "DAYS_BACK demo_runtime demo_config = Inr 1"
    by (simp add: DAYS_BACK_def demo_config_def)
  then show ?thesis
    by (simp add: py_range_small main_demo_default sync_day_demo_null_summary)
qed

section \<open>Two runs for the same day\<close>

lemma sync_day_creates:
  assumes "fetched (get_hrv_data g d) = h" and "fetched (get_rhr_day g d) = r"
    and "fetched (get_max_metrics g d) = v"
    and "truthy h \<or> truthy r \<or> truthy v"
    and "create_properties rt d h r v = Inr p"
    and "\<not> truthy (fst (entry_exists n db d calls))"
    and "pages_create n (calls @ [Query db d]) db p = None"
  shows "sync_day rt g n db d calls = (Created, calls @ [Query db d, Create db p])"
proof -
  obtain found where ee: "entry_exists n db d calls = (found, calls @ [Query db d])"
    by (simp add: entry_exists_def)
  with assms(6) have "\<not> truthy found" by simp
  with assms(1-5,7) ee show ?thesis
    by (auto simp: sync_day_def create_notion_entry_def)
qed

lemma sync_day_updates:
  assumes "fetched (get_hrv_data g d) = h" and "fetched (get_rhr_day g d) = r"
    and "fetched (get_max_metrics g d) = v"
    and "truthy h \<or> truthy r \<or> truthy v"
    and "update_properties rt h r v = Inr p"
    and "fst (entry_exists n db d calls) = PList (PDict page # others)"
    and "map_of page ''id'' = Some page_id"
    and "pages_update n (calls @ [Query db d]) page_id p = None"
  shows "sync_day rt g n db d calls = (Updated, calls @ [Query db d, Update page_id p])"
proof -
  have ee: "entry_exists n db d calls = (PList (PDict page # others), calls @ [Query db d])"
    using assms(6) by (simp add: entry_exists_def)
  with assms(1-5,7,8) show ?thesis
    by (auto simp: sync_day_def update_notion_entry_def)
qed

text \<open>
  Claim C1 as stated fails when the database does not accept a write: here the payloads
  are the same for both runs, the first run creates the record and the Record Locator
  reports it to the second run, but \<open>pages.update\<close> raises and the second run ends
  \<open>Failed\<close>, not \<open>Updated\<close>.
\<close>

theorem rejected_update_ends_failed:
  "sync_day demo_runtime demo_garmin update_rejecting_notion (Some ''db'') ''2024-01-01'' [] =
     (Created,
      [Query (Some ''db'') ''2024-01-01'',
       Create (Some ''db'')
         [(''Date'', DateProp ''2024-01-01''), (''Last Night HRV'', NumberProp (PInt 55)),
          (''Weekly Avg HRV'', NumberProp (PInt 60)),
          (''HRV Status'', RichTextStr (PStr ''BALANCED'')),
          (''Resting Heart Rate'', NumberProp (PInt 47))]]) \<and>
   fst (entry_exists update_rejecting_notion (Some ''db'') ''2024-01-01''
      [Query (Some ''db'') ''2024-01-01'',
       Create (Some ''db'')
         [(''Date'', DateProp ''2024-01-01''), (''Last Night HRV'', NumberProp (PInt 55)),
          (''Weekly Avg HRV'', NumberProp (PInt 60)),
          (''HRV Status'', RichTextStr (PStr ''BALANCED'')),
          (''Resting Heart Rate'', NumberProp (PInt 47))]]) =
     PList [PDict [(''id'', PInt 0)]] \<and>
   sync_day demo_runtime demo_garmin update_rejecting_notion (Some ''db'') ''2024-01-01''
      [Query (Some ''db'') ''2024-01-01'',
       Create (Some ''db'')
         [(''Date'', DateProp ''2024-01-01''), (''Last Night HRV'', NumberProp (PInt 55)),
          (''Weekly Avg HRV'', NumberProp (PInt 60)),
          (''HRV Status'', RichTextStr (PStr ''BALANCED'')),
          (''Resting Heart Rate'', NumberProp (PInt 47))]] =
     (Failed,
      [Query (Some ''db'') ''2024-01-01'',
       Create (Some ''db'')
         [(''Date'', DateProp ''2024-01-01''), (''Last Night HRV'', NumberProp (PInt 55)),
          (''Weekly Avg HRV'', NumberProp (PInt 60)),
          (''HRV Status'', RichTextStr (PStr ''BALANCED'')),
          (''Resting Heart Rate'', NumberProp (PInt 47))],
       Query (Some ''db'') ''2024-01-01'',
       Update (PInt 0)
         [(''Last Night HRV'', NumberProp (PInt 55)),
          (''Weekly Avg HRV'', NumberProp (PInt 60)),
          (''HRV Status'', RichTextStr (PStr ''BALANCED'')),
          (''Resting Heart Rate'', NumberProp (PInt 47))]])"
  by (simp add: sync_day_def entry_exists_def update_rejecting_notion_def demo_notion_def
      create_notion_entry_def update_notion_entry_def create_demo update_demo)

text \<open>
  Claim C1, amended. Two runs of the loop body for the same date, one after the other,
  with the same three payloads of which at least one is present, where no record is found
  before the first run, the properties can be built without an exception, the database
  accepts the create and the update, and the Record Locator reports the created record
  to the second run: the first run ends \<open>Created\<close> and the second \<open>Updated\<close>, and the
  calls issued are one query and one \<open>pages.create\<close>, then one query and one
  \<open>pages.update\<close> of the reported page with the same fields except \<open>Date\<close>; there is
  no second \<open>pages.create\<close>.
\<close>

theorem second_run_updates_the_created_record:
  assumes "fetched (get_hrv_data garmin1 date_str) = hrv_data"
    and "fetched (get_rhr_day garmin1 date_str) = rhr_data"
    and "fetched (get_max_metrics garmin1 date_str) = vo2_data"
    and "fetched (get_hrv_data garmin2 date_str) = hrv_data"
    and "fetched (get_rhr_day garmin2 date_str) = rhr_data"
    and "fetched (get_max_metrics garmin2 date_str) = vo2_data"
    and "truthy hrv_data \<or> truthy rhr_data \<or> truthy vo2_data"
    and "create_properties rt date_str hrv_data rhr_data vo2_data = Inr p"
    and "\<not> truthy (fst (entry_exists notion db date_str calls))"
    and "pages_create notion (calls @ [Query db date_str]) db p = None"
    and "calls1 = calls @ [Query db date_str, Create db p]"
    and "fst (entry_exists notion db date_str calls1) = PList (PDict page # others)"
    and "map_of page ''id'' = Some page_id"
    and "pages_update notion (calls1 @ [Query db date_str]) page_id (AList.delete ''Date'' p) = None"
  shows "sync_day rt garmin1 notion db date_str calls = (Created, calls1) \<and>
         sync_day rt garmin2 notion db date_str calls1 =
           (Updated, calls @ [Query db date_str, Create db p,
                              Query db date_str, Update page_id (AList.delete ''Date'' p)])"
proof -
  have first: "sync_day rt garmin1 notion db date_str calls = (Created, calls1)"
    unfolding assms(11) using assms(1-3,7-10) by (rule sync_day_creates)
  have "update_properties rt hrv_data rhr_data vo2_data = Inr (AList.delete ''Date'' p)"
    using update_properties_via_create [of rt hrv_data rhr_data vo2_data date_str]
    by (simp add: assms(8))
  with assms(4-7)
  have "sync_day rt garmin2 notion db date_str calls1 =
      (Updated, calls1 @ [Query db date_str, Update page_id (AList.delete ''Date'' p)])"
    using assms(12-14) by (rule sync_day_updates)
  with first show ?thesis by (simp add: assms(11))
qed

theorem second_run_updates_the_created_record_witness:
  "truthy hrv_payload \<and>
   \<not> truthy (fst (entry_exists demo_notion (Some ''db'') ''2024-01-01'' [])) \<and>
   sync_day demo_runtime demo_garmin demo_notion (Some ''db'') ''2024-01-01'' [] =
     (Created,
      [Query (Some ''db'') ''2024-01-01'',
       Create (Some ''db'')
         [(''Date'', DateProp ''2024-01-01''), (''Last Night HRV'', NumberProp (PInt 55)),
          (''Weekly Avg HRV'', NumberProp (PInt 60)),
          (''HRV Status'', RichTextStr (PStr ''BALANCED'')),
          (''Resting Heart Rate'', NumberProp (PInt 47))]]) \<and>
   sync_day demo_runtime demo_garmin demo_notion (Some ''db'') ''2024-01-01''
      [Query (Some ''db'') ''2024-01-01'',
       Create (Some ''db'')
         [(''Date'', DateProp ''2024-01-01''), (''Last Night HRV'', NumberProp (PInt 55)),
          (''Weekly Avg HRV'', NumberProp (PInt 60)),
          (''HRV Status'', RichTextStr (PStr ''BALANCED'')),
          (''Resting Heart Rate'', NumberProp (PInt 47))]] =
     (Updated,
      [Query (Some ''db'') ''2024-01-01'',
       Create (Some ''db'')
         [(''Date'', DateProp ''2024-01-01''), (''Last Night HRV'', NumberProp (PInt 55)),
          (''Weekly Avg HRV'', NumberProp (PInt 60)),
          (''HRV Status'', RichTextStr (PStr ''BALANCED'')),
          (''Resting Heart Rate'', NumberProp (PInt 47))],
       Query (Some ''db'') ''2024-01-01'',
       Update (PInt 0)
         [(''Last Night HRV'', NumberProp (PInt 55)),
          (''Weekly Avg HRV'', NumberProp (PInt 60)),
          (''HRV Status'', RichTextStr (PStr ''BALANCED'')),
          (''Resting Heart Rate'', NumberProp (PInt 47))]])"
  using second_run_updates_the_created_record
    [of demo_garmin "''2024-01-01''" hrv_payload rhr_payload PNone demo_garmin demo_runtime
        "[(''Date'', DateProp ''2024-01-01''), (''Last Night HRV'', NumberProp (PInt 55)),
          (''Weekly Avg HRV'', NumberProp (PInt 60)),
          (''HRV Status'', RichTextStr (PStr ''BALANCED'')),
          (''Resting Heart Rate'', NumberProp (PInt 47))]"
        demo_notion "Some ''db''" "[]"
        "[Query (Some ''db'') ''2024-01-01'',
          Create (Some ''db'')
           [(''Date'', DateProp ''2024-01-01''), (''Last Night HRV'', NumberProp (PInt 55)),
            (''Weekly Avg HRV'', NumberProp (PInt 60)),
            (''HRV Status'', RichTextStr (PStr ''BALANCED'')),
            (''Resting Heart Rate'', NumberProp (PInt 47))]]"
        "[(''id'', PInt 0)]" "[]" "PInt 0"]
  by (simp add: create_demo entry_exists_def demo_notion_def AList.delete_eq)

end
